theory Spec2Isabelle
  imports Complex_Main "HOL-Library.Multiset"
begin

section \<open>JavaScript numbers\<close>

text \<open>
  A JavaScript \<open>number\<close> is modelled as a real number or one of the three special values
  of IEEE 754. Arithmetic on finite values is exact (rounding is not modelled); arithmetic
  that involves a special value, and division by zero, follow IEEE 754. Zero is unsigned
  and behaves as \<open>+0\<close>.
\<close>

datatype jsnum = Num real | PosInf | NegInf | NaN

fun js_neg :: "jsnum \<Rightarrow> jsnum" where
  "js_neg (Num a) = Num (- a)"
| "js_neg PosInf = NegInf"
| "js_neg NegInf = PosInf"
| "js_neg NaN = NaN"

fun js_add :: "jsnum \<Rightarrow> jsnum \<Rightarrow> jsnum" where
  "js_add (Num a) (Num b) = Num (a + b)"
| "js_add (Num a) PosInf = PosInf"
| "js_add (Num a) NegInf = NegInf"
| "js_add PosInf (Num b) = PosInf"
| "js_add PosInf PosInf = PosInf"
| "js_add NegInf (Num b) = NegInf"
| "js_add NegInf NegInf = NegInf"
| "js_add PosInf NegInf = NaN"
| "js_add NegInf PosInf = NaN"
| "js_add NaN y = NaN"
| "js_add x NaN = NaN"

definition js_sub :: "jsnum \<Rightarrow> jsnum \<Rightarrow> jsnum" where
  "js_sub x y = js_add x (js_neg y)"

text \<open>The product of an infinity of the given sign (\<open>True\<close> for positive) with a finite value.\<close>

definition inf_times :: "bool \<Rightarrow> real \<Rightarrow> jsnum" where
  "inf_times pos a =
     (if a = 0 then NaN else if (0 < a) = pos then PosInf else NegInf)"

fun js_mul :: "jsnum \<Rightarrow> jsnum \<Rightarrow> jsnum" where
  "js_mul (Num a) (Num b) = Num (a * b)"
| "js_mul (Num a) PosInf = inf_times True a"
| "js_mul (Num a) NegInf = inf_times False a"
| "js_mul PosInf (Num b) = inf_times True b"
| "js_mul NegInf (Num b) = inf_times False b"
| "js_mul PosInf PosInf = PosInf"
| "js_mul NegInf NegInf = PosInf"
| "js_mul PosInf NegInf = NegInf"
| "js_mul NegInf PosInf = NegInf"
| "js_mul NaN y = NaN"
| "js_mul x NaN = NaN"

fun js_div :: "jsnum \<Rightarrow> jsnum \<Rightarrow> jsnum" where
  "js_div (Num a) (Num b) =
     (if b \<noteq> 0 then Num (a / b)
      else if a = 0 then NaN
      else if 0 < a then PosInf else NegInf)"
| "js_div (Num a) PosInf = Num 0"
| "js_div (Num a) NegInf = Num 0"
| "js_div PosInf (Num b) = (if 0 \<le> b then PosInf else NegInf)"
| "js_div NegInf (Num b) = (if 0 \<le> b then NegInf else PosInf)"
| "js_div PosInf PosInf = NaN"
| "js_div PosInf NegInf = NaN"
| "js_div NegInf PosInf = NaN"
| "js_div NegInf NegInf = NaN"
| "js_div NaN y = NaN"
| "js_div x NaN = NaN"

text \<open>\<open>x < y\<close>; every comparison with \<open>NaN\<close> is false.\<close>

fun js_lt :: "jsnum \<Rightarrow> jsnum \<Rightarrow> bool" where
  "js_lt (Num a) (Num b) = (a < b)"
| "js_lt (Num a) PosInf = True"
| "js_lt NegInf (Num b) = True"
| "js_lt NegInf PosInf = True"
| "js_lt NaN y = False"
| "js_lt x NaN = False"
| "js_lt PosInf y = False"
| "js_lt x NegInf = False"

definition js_gt :: "jsnum \<Rightarrow> jsnum \<Rightarrow> bool" where
  "js_gt x y = js_lt y x"

text \<open>\<open>x >= y\<close> of JavaScript: false when either side is \<open>NaN\<close>.\<close>

definition js_ge :: "jsnum \<Rightarrow> jsnum \<Rightarrow> bool" where
  "js_ge x y = (x \<noteq> NaN \<and> y \<noteq> NaN \<and> \<not> js_lt x y)"

fun js_abs :: "jsnum \<Rightarrow> jsnum" where
  "js_abs (Num a) = Num \<bar>a\<bar>"
| "js_abs PosInf = PosInf"
| "js_abs NegInf = PosInf"
| "js_abs NaN = NaN"

text \<open>\<open>Math.max\<close> and \<open>Math.min\<close> of two arguments: \<open>NaN\<close> if either argument is.\<close>

definition js_max2 :: "jsnum \<Rightarrow> jsnum \<Rightarrow> jsnum" where
  "js_max2 x y = (if x = NaN \<or> y = NaN then NaN else if js_lt x y then y else x)"

definition js_min2 :: "jsnum \<Rightarrow> jsnum \<Rightarrow> jsnum" where
  "js_min2 x y = (if x = NaN \<or> y = NaN then NaN else if js_lt y x then y else x)"

text \<open>\<open>Math.max(...xs)\<close>: the maximum of any number of arguments, \<open>-Infinity\<close> of none.\<close>

definition Math_max :: "jsnum list \<Rightarrow> jsnum" where
  "Math_max xs = foldl js_max2 NegInf xs"

text \<open>Truthiness of a number: \<open>0\<close> and \<open>NaN\<close> are falsy.\<close>

definition truthy_num :: "jsnum \<Rightarrow> bool" where
  "truthy_num x = (x \<noteq> Num 0 \<and> x \<noteq> NaN)"

section \<open>Price service (pyth.ts)\<close>

definition mockPrices :: "(string \<times> real) list" where
  "mockPrices =
     [(''SOL'', 98.50), (''USDC'', 1.00), (''USDT'', 1.00), (''BTC'', 42000),
      (''ETH'', 2200), (''BONK'', 0.000015), (''JUP'', 0.85)]"

text \<open>\<open>getMockPrice(symbol).price\<close>, that is \<open>mockPrices[symbol] || 1.0\<close>.\<close>

definition getMockPrice :: "string \<Rightarrow> real" where
  "getMockPrice symbol =
     (case map_of mockPrices symbol of
        None \<Rightarrow> 1.0
      | Some p \<Rightarrow> (if p = 0 then 1.0 else p))"

text \<open>
  \<open>calculateUsdValue\<close>. The live lookup \<open>getPrice\<close> is a parameter: it gives the price,
  or \<open>None\<close> where \<open>getPrice\<close> returns \<open>null\<close> (it catches its own errors).
\<close>

definition calculateUsdValue :: "(string \<Rightarrow> real option) \<Rightarrow> string \<Rightarrow> real \<Rightarrow> bool \<Rightarrow> real" where
  "calculateUsdValue getPrice symbol amount useMock =
     (case (if useMock then Some (getMockPrice symbol) else getPrice symbol) of
        None \<Rightarrow> amount * getMockPrice symbol
      | Some price \<Rightarrow> amount * price)"

section \<open>Portfolio analytics (portfolio.ts)\<close>

record TokenBalance =
  mint :: string
  symbol :: string
  balance :: nat
  decimals :: nat
  uiAmount :: real
  usdValue :: real

datatype PositionType = lending | borrowing | liquidity | staking

record PortfolioPosition =
  protocol :: string
  ptype :: PositionType
  token :: string
  amount :: real
  usdValue_p :: real
  apy_p :: "real option"

record PortfolioAnalytics =
  wallet :: string
  solBalance :: real
  solUsdValue :: real
  tokenBalances :: "TokenBalance list"
  defiPositions :: "PortfolioPosition list"
  totalUsdValue :: real
  timestamp :: nat

datatype RiskLevel = low | medium | high | critical

record RiskFactors =
  healthFactor :: "jsnum option"
  concentrationRisk :: jsnum
  liquidationRisk :: jsnum
  protocolDiversification :: jsnum

record RiskScore =
  wallet_r :: string
  overallScore :: jsnum
  riskLevel :: RiskLevel
  factors :: RiskFactors
  warnings :: "string list"
  timestamp_r :: nat

text \<open>
  One parsed token account as the RPC node returns it: the mint, \<open>tokenAmount.amount\<close>
  (a decimal string, read with \<open>Number\<close>), \<open>tokenAmount.decimals\<close> and
  \<open>tokenAmount.uiAmount\<close> (a number or \<open>null\<close>).
\<close>

record TokenAccount =
  ta_mint :: string
  ta_amount :: nat
  ta_decimals :: nat
  ta_uiAmount :: "real option"

text \<open>
  The ledger connection, as far as the portfolio code uses it. \<open>getBalance w\<close> is
  \<open>None\<close> when \<open>new PublicKey(w)\<close> or the RPC call throws, the balance in lamports
  otherwise; \<open>getParsedTokenAccountsByOwner w\<close> is \<open>None\<close> when that call throws.
\<close>

record Connection =
  getBalance :: "string \<Rightarrow> nat option"
  getParsedTokenAccountsByOwner :: "string \<Rightarrow> TokenAccount list option"

definition knownMints :: "(string \<times> string) list" where
  "knownMints =
     [(''4zMMC9srt5Ri5X14GAgXhaHii3GnPAEERYPJgZJDncDU'', ''USDC''),
      (''So11111111111111111111111111111111111111112'', ''SOL'')]"

text \<open>The body of the loop of \<open>getTokenBalances\<close> for one account.\<close>

definition tokenBalanceOf :: "(string \<Rightarrow> real option) \<Rightarrow> TokenAccount \<Rightarrow> TokenBalance option" where
  "tokenBalanceOf getPrice account =
     (case ta_uiAmount account of
        None \<Rightarrow> None
      | Some ui \<Rightarrow>
          (if ui \<noteq> 0 \<and> ui > 0 then
             (let sym = (case map_of knownMints (ta_mint account) of
                           Some s \<Rightarrow> (if s = [] then take 4 (ta_mint account) else s)
                         | None \<Rightarrow> take 4 (ta_mint account));
                  usd = calculateUsdValue getPrice sym ui True
              in Some \<lparr> mint = ta_mint account, symbol = sym, balance = ta_amount account,
                        decimals = ta_decimals account, uiAmount = ui, usdValue = usd \<rparr>)
           else None))"

definition getTokenBalances ::
  "Connection \<Rightarrow> (string \<Rightarrow> real option) \<Rightarrow> string \<Rightarrow> TokenBalance list" where
  "getTokenBalances connection getPrice walletAddress =
     (case getParsedTokenAccountsByOwner connection walletAddress of
        None \<Rightarrow> []
      | Some accounts \<Rightarrow> List.map_filter (tokenBalanceOf getPrice) accounts)"

definition getMarginfiPositions :: "Connection \<Rightarrow> string \<Rightarrow> PortfolioPosition list" where
  "getMarginfiPositions connection walletAddress = []"

definition getMockTokenBalances :: "TokenBalance list" where
  "getMockTokenBalances =
     [\<lparr> mint = ''4zMMC9srt5Ri5X14GAgXhaHii3GnPAEERYPJgZJDncDU'', symbol = ''USDC'',
        balance = 5000000000, decimals = 6, uiAmount = 5000, usdValue = 5000 \<rparr>,
      \<lparr> mint = ''So11111111111111111111111111111111111111112'', symbol = ''SOL'',
        balance = 50000000000, decimals = 9, uiAmount = 50, usdValue = 4925 \<rparr>]"

definition getMockDefiPositions :: "PortfolioPosition list" where
  "getMockDefiPositions =
     [\<lparr> protocol = ''Marginfi'', ptype = lending, token = ''USDC'', amount = 2500,
        usdValue_p = 2500, apy_p = Some 9.8 \<rparr>,
      \<lparr> protocol = ''Kamino'', ptype = liquidity, token = ''SOL-USDC'', amount = 422.375,
        usdValue_p = 422.375, apy_p = Some 12.3 \<rparr>]"

text \<open>
  \<open>getPortfolioAnalytics\<close>; \<open>now\<close> is the value of \<open>Date.now()\<close>. The first branch is
  the \<open>catch\<close> block: the only steps of the \<open>try\<close> block that can throw are the
  construction of the public key and \<open>getBalance\<close>, since \<open>getTokenBalances\<close> catches
  its own errors.
\<close>

definition getPortfolioAnalytics ::
  "Connection \<Rightarrow> (string \<Rightarrow> real option) \<Rightarrow> nat \<Rightarrow> string \<Rightarrow> bool \<Rightarrow> PortfolioAnalytics" where
  "getPortfolioAnalytics connection getPrice now walletAddress useMock =
     (case getBalance connection walletAddress of
        None \<Rightarrow>
          \<lparr> wallet = walletAddress, solBalance = 5.25, solUsdValue = 517.125,
            tokenBalances = getMockTokenBalances, defiPositions = getMockDefiPositions,
            totalUsdValue = 12847.50, timestamp = now \<rparr>
      | Some lamports \<Rightarrow>
          (let solUiAmount = real lamports / 1000000000;
               solUsd = calculateUsdValue getPrice ''SOL'' solUiAmount True;
               tokens = (if useMock then getMockTokenBalances
                         else getTokenBalances connection getPrice walletAddress);
               positions = (if useMock then getMockDefiPositions
                            else getMarginfiPositions connection walletAddress);
               tokenUsdValue = foldl (\<lambda>sum t. sum + usdValue t) 0 tokens;
               defiUsdValue = foldl (\<lambda>sum pos. sum + usdValue_p pos) 0 positions;
               total = solUsd + tokenUsdValue + defiUsdValue
           in \<lparr> wallet = walletAddress, solBalance = solUiAmount, solUsdValue = solUsd,
                tokenBalances = tokens, defiPositions = positions,
                totalUsdValue = total, timestamp = now \<rparr>))"

section \<open>Risk score (portfolio.ts)\<close>

text \<open>
  The contribution of the health factor to the score:
  \<open>healthFactor ? Math.max(0, (2 - healthFactor) * 50) : 10\<close>. The condition is the
  truthiness of \<open>healthFactor\<close>, so \<open>undefined\<close>, \<open>0\<close> and \<open>NaN\<close> all take the
  second branch.
\<close>

definition healthFactorTerm :: "jsnum option \<Rightarrow> jsnum" where
  "healthFactorTerm hf =
     (case hf of
        None \<Rightarrow> Num 10
      | Some h \<Rightarrow>
          (if truthy_num h then Math_max [Num 0, js_mul (js_sub (Num 2) h) (Num 50)]
           else Num 10))"

definition overallScoreOf :: "jsnum \<Rightarrow> jsnum \<Rightarrow> jsnum \<Rightarrow> jsnum option \<Rightarrow> jsnum" where
  "overallScoreOf concentration liquidation diversification hf =
     js_min2 (Num 100)
       (js_add
          (js_add
             (js_add (js_mul concentration (Num 0.3)) (js_mul liquidation (Num 0.4)))
             (js_mul diversification (Num 0.2)))
          (healthFactorTerm hf))"

definition riskLevelOf :: "jsnum \<Rightarrow> RiskLevel" where
  "riskLevelOf score =
     (if js_lt score (Num 25) then low
      else if js_lt score (Num 50) then medium
      else if js_lt score (Num 75) then high
      else critical)"

definition maxConcentrationOf :: "PortfolioAnalytics \<Rightarrow> jsnum" where
  "maxConcentrationOf portfolio =
     (let totalValue = totalUsdValue portfolio;
          concentrations =
            map (\<lambda>t. js_div (Num (usdValue t)) (Num totalValue)) (tokenBalances portfolio)
      in Math_max (concentrations @ [Num 0]))"

definition concentrationRiskOf :: "PortfolioAnalytics \<Rightarrow> jsnum" where
  "concentrationRiskOf portfolio = js_mul (maxConcentrationOf portfolio) (Num 100)"

definition liquidationRiskOf :: "PortfolioAnalytics \<Rightarrow> jsnum" where
  "liquidationRiskOf portfolio =
     (let totalValue = totalUsdValue portfolio;
          borrowedPositions = filter (\<lambda>p. ptype p = borrowing) (defiPositions portfolio);
          totalBorrowed = foldl (\<lambda>sum p. sum + usdValue_p p) 0 borrowedPositions
      in if totalBorrowed > 0 then js_mul (js_div (Num totalBorrowed) (Num totalValue)) (Num 100)
         else Num 0)"

definition protocolDiversificationOf :: "PortfolioAnalytics \<Rightarrow> jsnum" where
  "protocolDiversificationOf portfolio =
     (let uniqueProtocols = remdups (map protocol (defiPositions portfolio))
      in if length uniqueProtocols > 0 then js_div (Num 100) (Num (real (length uniqueProtocols)))
         else Num 100)"

text \<open>
  The body of the \<open>try\<close> block of \<open>calculateRiskScore\<close> after the portfolio has been
  retrieved. \<open>healthFactor\<close> is declared and never assigned, so it is \<open>undefined\<close>.
\<close>

definition scorePortfolio :: "PortfolioAnalytics \<Rightarrow> string \<Rightarrow> nat \<Rightarrow> RiskScore" where
  "scorePortfolio portfolio walletAddress now =
     (let hf = None;
          concentration = concentrationRiskOf portfolio;
          w1 = (if js_gt (maxConcentrationOf portfolio) (Num 0.7)
                then [''High concentration risk: Over 70% in single asset''] else []);
          liquidation = liquidationRiskOf portfolio;
          w2 = (if js_gt liquidation (Num 50)
                then [''High liquidation risk: Borrowed amount exceeds 50% of portfolio''] else []);
          diversification = protocolDiversificationOf portfolio;
          w3 = (if length (remdups (map protocol (defiPositions portfolio))) = 1 \<and>
                   length (defiPositions portfolio) > 0
                then [''Single protocol exposure - consider diversification''] else []);
          score = overallScoreOf concentration liquidation diversification hf
      in \<lparr> wallet_r = walletAddress, overallScore = score, riskLevel = riskLevelOf score,
           factors = \<lparr> healthFactor = hf, concentrationRisk = concentration,
                       liquidationRisk = liquidation, protocolDiversification = diversification \<rparr>,
           warnings = w1 @ w2 @ w3, timestamp_r = now \<rparr>)"

definition getMockRiskScore :: "string \<Rightarrow> nat \<Rightarrow> RiskScore" where
  "getMockRiskScore walletAddress now =
     \<lparr> wallet_r = walletAddress, overallScore = Num 32, riskLevel = medium,
       factors = \<lparr> healthFactor = Some (Num 2.15), concentrationRisk = Num 38.5,
                   liquidationRisk = Num 19.5, protocolDiversification = Num 50 \<rparr>,
       warnings = [], timestamp_r = now \<rparr>"

datatype error = Thrown

text \<open>
  The \<open>try\<close>/\<open>catch\<close> of \<open>calculateRiskScore\<close>, given how the awaited portfolio
  retrieval settled: a rejection (or any throw of the body) reaches the handler, which
  returns the fixed score.
\<close>

definition calculateRiskScore_settled :: "error + PortfolioAnalytics \<Rightarrow> string \<Rightarrow> nat \<Rightarrow> RiskScore" where
  "calculateRiskScore_settled outcome walletAddress now =
     (case outcome of
        Inl e \<Rightarrow> getMockRiskScore walletAddress now
      | Inr portfolio \<Rightarrow> scorePortfolio portfolio walletAddress now)"

text \<open>
  \<open>calculateRiskScore\<close>: \<open>getPortfolioAnalytics\<close> has its own handler and always
  fulfils.
\<close>

definition calculateRiskScore ::
  "Connection \<Rightarrow> (string \<Rightarrow> real option) \<Rightarrow> nat \<Rightarrow> string \<Rightarrow> bool \<Rightarrow> RiskScore" where
  "calculateRiskScore connection getPrice now walletAddress useMock =
     calculateRiskScore_settled
       (Inr (getPortfolioAnalytics connection getPrice now walletAddress useMock))
       walletAddress now"

section \<open>Yield aggregation (yield.ts)\<close>

datatype YieldType = Lending | Staking | Liquidity

datatype YieldRisk = Low | Medium | High

record YieldOpportunity =
  protocol_y :: string
  token_y :: string
  apy :: real
  tvl :: "real option"
  type_y :: YieldType
  vault :: "string option"
  riskLevel_y :: "YieldRisk option"

datatype Source = live | cached | mock

record BestYieldResponse =
  topOpportunities :: "YieldOpportunity list"
  timestamp_b :: nat
  source :: Source

definition getMockKaminoYields :: "YieldOpportunity list" where
  "getMockKaminoYields =
     [\<lparr> protocol_y = ''Kamino'', token_y = ''SOL'', apy = 7.85, tvl = Some 15420000,
        type_y = Liquidity, vault = Some ''SOL-USDC Concentrated Liquidity'',
        riskLevel_y = Some Low \<rparr>,
      \<lparr> protocol_y = ''Kamino'', token_y = ''USDC'', apy = 12.3, tvl = Some 8750000,
        type_y = Lending, vault = Some ''USDC Lending Vault'', riskLevel_y = Some Low \<rparr>,
      \<lparr> protocol_y = ''Kamino'', token_y = ''JUP'', apy = 18.5, tvl = Some 2100000,
        type_y = Liquidity, vault = Some ''JUP-SOL Auto-Compound'',
        riskLevel_y = Some Medium \<rparr>]"

definition getMockMarginfiYields :: "YieldOpportunity list" where
  "getMockMarginfiYields =
     [\<lparr> protocol_y = ''Marginfi'', token_y = ''SOL'', apy = 6.2, tvl = Some 12300000,
        type_y = Lending, vault = None, riskLevel_y = Some Low \<rparr>,
      \<lparr> protocol_y = ''Marginfi'', token_y = ''USDC'', apy = 9.8, tvl = Some 18500000,
        type_y = Lending, vault = None, riskLevel_y = Some Low \<rparr>,
      \<lparr> protocol_y = ''Marginfi'', token_y = ''USDT'', apy = 9.5, tvl = Some 6200000,
        type_y = Lending, vault = None, riskLevel_y = Some Low \<rparr>]"

definition getMockDriftYields :: "YieldOpportunity list" where
  "getMockDriftYields =
     [\<lparr> protocol_y = ''Drift'', token_y = ''SOL'', apy = 5.8, tvl = Some 9800000,
        type_y = Lending, vault = None, riskLevel_y = Some Medium \<rparr>,
      \<lparr> protocol_y = ''Drift'', token_y = ''USDC'', apy = 11.2, tvl = Some 14200000,
        type_y = Lending, vault = None, riskLevel_y = Some Medium \<rparr>,
      \<lparr> protocol_y = ''Drift'', token_y = ''BTC'', apy = 4.5, tvl = Some 3500000,
        type_y = Lending, vault = None, riskLevel_y = Some Medium \<rparr>]"

text \<open>
  One strategy of the Kamino API response. Every field may be missing; numbers are
  finite.
\<close>

record KaminoStrategy =
  s_apy :: "real option"
  s_aprLatest :: "real option"
  s_symbol :: "string option"
  s_tokenSymbol :: "string option"
  s_tvl :: "real option"
  s_name :: "string option"
  s_strategyName :: "string option"

text \<open>\<open>a || b\<close> on optional numbers and strings: a missing field, \<open>0\<close> and \<open>''\<close> are falsy.\<close>

definition num_or :: "real option \<Rightarrow> real \<Rightarrow> real" where
  "num_or a b = (case a of None \<Rightarrow> b | Some x \<Rightarrow> (if x = 0 then b else x))"

definition str_or :: "string option \<Rightarrow> string \<Rightarrow> string" where
  "str_or a b = (case a of None \<Rightarrow> b | Some x \<Rightarrow> (if x = [] then b else x))"

text \<open>The body of the loop of \<open>fetchKaminoYields\<close> for one strategy.\<close>

definition kaminoOpportunity :: "KaminoStrategy \<Rightarrow> YieldOpportunity option" where
  "kaminoOpportunity strategy =
     (let a = num_or (s_apy strategy) (num_or (s_aprLatest strategy) 0)
      in if a > 0 then
           Some \<lparr> protocol_y = ''Kamino'',
                  token_y = str_or (s_symbol strategy) (str_or (s_tokenSymbol strategy) ''LP''),
                  apy = a * 100,
                  tvl = Some (num_or (s_tvl strategy) 0),
                  type_y = Liquidity,
                  vault = Some (str_or (s_name strategy) (str_or (s_strategyName strategy) ''Strategy'')),
                  riskLevel_y = Some (if num_or (s_tvl strategy) 0 > 1000000 then Low
                                      else if num_or (s_tvl strategy) 0 > 100000 then Medium
                                      else High) \<rparr>
         else None)"

text \<open>
  \<open>fetchKaminoYields\<close>, given how the request settled: \<open>None\<close> when \<open>axios.get\<close>
  throws or times out, the strategies of the response otherwise.
\<close>

definition fetchKaminoYields :: "KaminoStrategy list option \<Rightarrow> YieldOpportunity list" where
  "fetchKaminoYields response =
     (case response of
        None \<Rightarrow> getMockKaminoYields
      | Some strategies \<Rightarrow>
          (let opportunities = List.map_filter kaminoOpportunity (take 10 strategies)
           in if length opportunities > 0 then opportunities else getMockKaminoYields))"

definition fetchMarginfiYields :: "YieldOpportunity list" where
  "fetchMarginfiYields = getMockMarginfiYields"

record DriftMarket =
  m_depositBalance :: "real option"
  m_borrowBalance :: "real option"
  m_name :: "string option"

definition driftOpportunity :: "DriftMarket \<Rightarrow> YieldOpportunity option" where
  "driftOpportunity market =
     (let depositBalance = (case m_depositBalance market of None \<Rightarrow> 0 | Some d \<Rightarrow> d);
          borrowBalance = (case m_borrowBalance market of None \<Rightarrow> 0 | Some b \<Rightarrow> b)
      in if depositBalance > 0 then
           Some \<lparr> protocol_y = ''Drift'',
                  token_y = str_or (m_name market) ''UNKNOWN'',
                  apy = borrowBalance / depositBalance * 15,
                  tvl = Some depositBalance,
                  type_y = Lending,
                  vault = None,
                  riskLevel_y = Some Medium \<rparr>
         else None)"

text \<open>
  How the Drift client answers inside \<open>fetchDriftYields\<close>: a step of the \<open>try\<close>
  block throws, or the spot markets are read, or \<open>driftClient.subscribe()\<close> (or
  \<open>unsubscribe()\<close>) never settles; the code sets no timeout on these calls.
\<close>

datatype DriftOutcome = DriftThrows | DriftMarkets "DriftMarket list" | DriftNeverSettles

text \<open>\<open>fetchDriftYields\<close>: \<open>None\<close> when the promise it returns never settles.\<close>

definition fetchDriftYields :: "DriftOutcome \<Rightarrow> YieldOpportunity list option" where
  "fetchDriftYields outcome =
     (case outcome of
        DriftThrows \<Rightarrow> Some getMockDriftYields
      | DriftMarkets ms \<Rightarrow> Some (List.map_filter driftOpportunity (take 5 ms))
      | DriftNeverSettles \<Rightarrow> None)"

text \<open>
  What the two providers that are queried over the network answer. The Kamino request
  carries a timeout of five seconds, so it always settles: \<open>None\<close> stands for an error
  or that timeout.
\<close>

record Providers =
  kaminoResponse :: "KaminoStrategy list option"
  driftMarkets :: DriftOutcome

text \<open>
  \<open>.sort((a, b) => b.apy - a.apy)\<close>: the sort of JavaScript is stable, and on finite
  keys the comparison is a total preorder, so the result is the stable sort by descending
  \<open>apy\<close>.
\<close>

definition sortByApyDesc :: "YieldOpportunity list \<Rightarrow> YieldOpportunity list" where
  "sortByApyDesc xs = sort_key (\<lambda>opp. - apy opp) xs"

datatype 'a settled = Fulfilled 'a | Rejected

definition fulfilledValue :: "'a list settled \<Rightarrow> 'a list" where
  "fulfilledValue r = (case r of Fulfilled v \<Rightarrow> v | Rejected \<Rightarrow> [])"

text \<open>
  \<open>getBestYields\<close>; \<open>None\<close> when the call never returns. With \<open>useMock\<close> no
  provider is asked. Otherwise \<open>Promise.allSettled\<close> waits until the three fetches
  have settled; they catch their own errors, so each one that settles is fulfilled, and
  nothing in the \<open>try\<close> block throws.
\<close>

definition getBestYields :: "Providers \<Rightarrow> nat \<Rightarrow> bool \<Rightarrow> BestYieldResponse option" where
  "getBestYields providers now useMock =
     (if useMock then
        Some \<lparr> topOpportunities =
                 take 10 (sortByApyDesc
                   (getMockKaminoYields @ getMockMarginfiYields @ getMockDriftYields)),
               timestamp_b = now, source = mock \<rparr>
      else
        (case fetchDriftYields (driftMarkets providers) of
           None \<Rightarrow> None
         | Some driftValue \<Rightarrow>
             (let kaminoYields = Fulfilled (fetchKaminoYields (kaminoResponse providers));
                  marginfiYields = Fulfilled fetchMarginfiYields;
                  driftYields = Fulfilled driftValue;
                  allOpportunities =
                    fulfilledValue kaminoYields @ fulfilledValue marginfiYields @
                    fulfilledValue driftYields
              in Some \<lparr> topOpportunities = take 10 (sortByApyDesc allOpportunities),
                        timestamp_b = now,
                        source = (if length allOpportunities > 0 then live else mock) \<rparr>)))"

section \<open>Payment gate (server.ts)\<close>

subsection \<open>Values parsed from the payment header\<close>

text \<open>
  A value as \<open>JSON.parse\<close> returns it, and \<open>undefined\<close> for a property that is not
  there. An object is the list of its properties, each key once.
\<close>

datatype jsval =
    Undefined
  | JNull
  | JBool bool
  | JNumber jsnum
  | JString string
  | JArray "jsval list"
  | JObject "(string \<times> jsval) list"

fun truthy :: "jsval \<Rightarrow> bool" where
  "truthy Undefined = False"
| "truthy JNull = False"
| "truthy (JBool b) = b"
| "truthy (JNumber n) = truthy_num n"
| "truthy (JString s) = (s \<noteq> [])"
| "truthy (JArray xs) = True"
| "truthy (JObject kvs) = True"

text \<open>\<open>a || b\<close>\<close>

definition js_or :: "jsval \<Rightarrow> jsval \<Rightarrow> jsval" where
  "js_or a b = (if truthy a then a else b)"

text \<open>
  \<open>v.key\<close> for one of the keys the parser reads: a \<open>TypeError\<close> on \<open>null\<close> and
  \<open>undefined\<close>, the property of an object, and \<open>undefined\<close> on every other value
  (no number, string, boolean or array has a property of one of these names).
\<close>

fun getProp :: "jsval \<Rightarrow> string \<Rightarrow> error + jsval" where
  "getProp Undefined key = Inl Thrown"
| "getProp JNull key = Inl Thrown"
| "getProp (JObject kvs) key = Inr (case map_of kvs key of None \<Rightarrow> Undefined | Some v \<Rightarrow> v)"
| "getProp v key = Inr Undefined"

text \<open>
  \<open>ToNumber\<close>. The conversion of a string, an array or an object is the parameter
  \<open>coerce\<close>; it is \<open>None\<close> where the conversion throws a \<open>TypeError\<close> (an object
  whose own \<open>toString\<close> property is not a function).
\<close>

fun ToNumber :: "(jsval \<Rightarrow> jsnum option) \<Rightarrow> jsval \<Rightarrow> jsnum option" where
  "ToNumber coerce Undefined = Some NaN"
| "ToNumber coerce JNull = Some (Num 0)"
| "ToNumber coerce (JBool b) = Some (Num (if b then 1 else 0))"
| "ToNumber coerce (JNumber n) = Some n"
| "ToNumber coerce v = coerce v"

text \<open>\<open>v < r\<close> and \<open>v >= r\<close> for a number \<open>r\<close>; \<open>None\<close> where the conversion throws.\<close>

definition lt_number :: "(jsval \<Rightarrow> jsnum option) \<Rightarrow> jsval \<Rightarrow> jsnum \<Rightarrow> bool option" where
  "lt_number coerce v r = map_option (\<lambda>n. js_lt n r) (ToNumber coerce v)"

definition ge_number :: "(jsval \<Rightarrow> jsnum option) \<Rightarrow> jsval \<Rightarrow> jsnum \<Rightarrow> bool option" where
  "ge_number coerce v r = map_option (\<lambda>n. js_ge n r) (ToNumber coerce v)"

record X402PaymentHeader =
  amount_h :: jsval
  token_h :: jsval
  sender :: jsval
  recipient :: jsval
  signature :: jsval
  timestamp_h :: jsval

text \<open>\<open>a.k1 || a.k2 || ...\<close>, for an object or a primitive value \<open>a\<close>.\<close>

fun firstPresent :: "jsval \<Rightarrow> string list \<Rightarrow> jsval" where
  "firstPresent v [] = Undefined"
| "firstPresent v [k] = (case getProp v k of Inl e \<Rightarrow> Undefined | Inr x \<Rightarrow> x)"
| "firstPresent v (k # ks) =
     (case getProp v k of Inl e \<Rightarrow> Undefined | Inr x \<Rightarrow> js_or x (firstPresent v ks))"

text \<open>
  \<open>parseX402Header\<close>. \<open>jsonParse\<close> is \<open>JSON.parse\<close>: \<open>None\<close> for a
  \<open>SyntaxError\<close>. Reading a property of \<open>null\<close> throws; both errors are caught and
  give \<open>null\<close>.
\<close>

definition parseX402Header ::
  "(string \<Rightarrow> jsval option) \<Rightarrow> nat \<Rightarrow> string \<Rightarrow> X402PaymentHeader option" where
  "parseX402Header jsonParse now headerValue =
     (case jsonParse headerValue of
        None \<Rightarrow> None
      | Some paymentData \<Rightarrow>
          (case getProp paymentData ''amount'' of
             Inl e \<Rightarrow> None
           | Inr a \<Rightarrow>
               Some \<lparr> amount_h = firstPresent paymentData [''amount'', ''value''],
                      token_h = firstPresent paymentData [''token'', ''mint''],
                      sender = firstPresent paymentData [''sender'', ''from'', ''payer''],
                      recipient = firstPresent paymentData [''recipient'', ''to'', ''payee''],
                      signature = firstPresent paymentData [''signature'', ''txSignature'', ''tx''],
                      timestamp_h =
                        js_or (firstPresent paymentData [''timestamp''])
                              (JNumber (Num (real now))) \<rparr>))"

subsection \<open>Verification on the ledger\<close>

record TxTokenBalance =
  accountIndex :: nat
  mint_b :: string
  amount_b :: nat

record TxMeta =
  err :: "string option"
  postTokenBalances :: "TxTokenBalance list option"
  preTokenBalances :: "TxTokenBalance list option"

text \<open>
  A fetched transaction: its \<open>meta\<close> (or \<open>null\<close>) and what
  \<open>tx.transaction.message.getAccountKeys()\<close> gives, \<open>None\<close> where that call throws
  (unresolved address lookup tables).
\<close>

record TransactionResponse =
  meta :: "TxMeta option"
  accountKeys :: "string list option"

datatype TxFetch = RpcError | NoTx | Tx TransactionResponse

text \<open>
  The ledger client. Public keys are their base58 strings; \<open>publicKey s\<close> is \<open>None\<close>
  where \<open>new PublicKey(s)\<close> throws, and \<open>getAssociatedTokenAddress\<close> is \<open>None\<close> where
  that call throws.
\<close>

record Chain =
  getTransaction :: "string \<Rightarrow> TxFetch"
  publicKey :: "string \<Rightarrow> string option"
  getAssociatedTokenAddress :: "string \<Rightarrow> string \<Rightarrow> string option"

record Config =
  RECIPIENT_WALLET :: string
  USDC_MINT :: string

text \<open>
  \<open>Number(postBalance.uiTokenAmount.amount) - Number(preBalance?.uiTokenAmount.amount || 0)\<close>
\<close>

definition amountReceived :: "TxTokenBalance list \<Rightarrow> TxTokenBalance \<Rightarrow> jsnum" where
  "amountReceived preBalances postBalance =
     js_sub (Num (real (amount_b postBalance)))
       (Num (case find (\<lambda>pb. accountIndex pb = accountIndex postBalance) preBalances of
               None \<Rightarrow> 0
             | Some preBalance \<Rightarrow> real (amount_b preBalance)))"

text \<open>\<open>accountKey && accountKey.equals(recipientAta)\<close>\<close>

definition isRecipientAta :: "string list \<Rightarrow> string \<Rightarrow> TxTokenBalance \<Rightarrow> bool" where
  "isRecipientAta keys recipientAta postBalance =
     (accountIndex postBalance < length keys \<and> keys ! accountIndex postBalance = recipientAta)"

text \<open>
  The loop over \<open>postBalances\<close>: \<open>Inr True\<close> when it returns \<open>true\<close> from inside,
  \<open>Inr False\<close> when it runs to its end, \<open>Inl\<close> when \<open>getAccountKeys\<close> throws.
\<close>

fun scanPostBalances ::
  "string \<Rightarrow> string list option \<Rightarrow> string \<Rightarrow> TxTokenBalance list \<Rightarrow> jsnum \<Rightarrow>
   TxTokenBalance list \<Rightarrow> error + bool" where
  "scanPostBalances usdc keys recipientAta preBalances expectedAmount [] = Inr False"
| "scanPostBalances usdc keys recipientAta preBalances expectedAmount (postBalance # rest) =
     (if mint_b postBalance = usdc then
        (case keys of
           None \<Rightarrow> Inl Thrown
         | Some ks \<Rightarrow>
             (if isRecipientAta ks recipientAta postBalance then
                (if js_lt (js_abs (js_sub (amountReceived preBalances postBalance) expectedAmount))
                          (Num 1000)
                 then Inr True
                 else scanPostBalances usdc keys recipientAta preBalances expectedAmount rest)
              else scanPostBalances usdc keys recipientAta preBalances expectedAmount rest))
      else scanPostBalances usdc keys recipientAta preBalances expectedAmount rest)"

text \<open>
  \<open>verifyPayment\<close>. A signature that is not a string makes the RPC request fail, which
  the client throws. After the loop the function returns \<open>true\<close> (\<open>For demo purposes,
  allow if transaction succeeded\<close>); every throw is caught and gives \<open>false\<close>.
\<close>

definition verifyPayment :: "Config \<Rightarrow> Chain \<Rightarrow> jsval \<Rightarrow> jsnum \<Rightarrow> string \<Rightarrow> bool" where
  "verifyPayment cfg chain sig expectedAmount expectedRecipient =
     (case (case sig of JString s \<Rightarrow> getTransaction chain s | _ \<Rightarrow> RpcError) of
        RpcError \<Rightarrow> False
      | NoTx \<Rightarrow> False
      | Tx tx \<Rightarrow>
          (case meta tx of
             None \<Rightarrow> False
           | Some m \<Rightarrow>
               (case err m of
                  Some e \<Rightarrow> False
                | None \<Rightarrow>
                    (case publicKey chain expectedRecipient of
                       None \<Rightarrow> False
                     | Some recipientPubkey \<Rightarrow>
                         (case publicKey chain (USDC_MINT cfg) of
                            None \<Rightarrow> False
                          | Some usdcMint \<Rightarrow>
                              (case getAssociatedTokenAddress chain usdcMint recipientPubkey of
                                 None \<Rightarrow> False
                               | Some recipientAta \<Rightarrow>
                                   (case scanPostBalances (USDC_MINT cfg) (accountKeys tx)
                                           recipientAta
                                           (case preTokenBalances m of None \<Rightarrow> [] | Some bs \<Rightarrow> bs)
                                           expectedAmount
                                           (case postTokenBalances m of None \<Rightarrow> [] | Some bs \<Rightarrow> bs) of
                                      Inl e \<Rightarrow> False
                                    | Inr inside \<Rightarrow> (if inside then True else True))))))))"

subsection \<open>The middleware\<close>

record PaymentRequirement =
  pr_amount :: jsnum
  pr_token :: string
  pr_recipient :: string
  pr_network :: string
  pr_protocol :: string

text \<open>The \<open>error\<close> field of a response body, with the \<open>payment\<close> object where there is one.\<close>

datatype Body =
    PaymentRequired PaymentRequirement
  | InvalidPaymentHeader
  | InsufficientPayment PaymentRequirement
  | InvalidRecipient
  | PaymentVerificationFailed
  | InternalServerError

datatype Outcome = Next | Respond nat Body

record Request =
  query_mock :: "string option"
  x402_payment :: "string option"

definition paymentObject :: "Config \<Rightarrow> jsnum \<Rightarrow> PaymentRequirement" where
  "paymentObject cfg requiredAmount =
     \<lparr> pr_amount = requiredAmount, pr_token = USDC_MINT cfg,
       pr_recipient = RECIPIENT_WALLET cfg, pr_network = ''solana-devnet'',
       pr_protocol = ''x402-solana'' \<rparr>"

text \<open>The checks of \<open>requirePayment\<close> that follow the amount check.\<close>

definition checkRecipientAndChain :: "Config \<Rightarrow> Chain \<Rightarrow> jsnum \<Rightarrow> X402PaymentHeader \<Rightarrow> Outcome" where
  "checkRecipientAndChain cfg chain requiredAmount payment =
     (if recipient payment \<noteq> JString (RECIPIENT_WALLET cfg) then Respond 400 InvalidRecipient
      else if \<not> verifyPayment cfg chain (signature payment) requiredAmount (RECIPIENT_WALLET cfg)
      then Respond 402 PaymentVerificationFailed
      else Next)"

text \<open>
  The middleware that \<open>requirePayment(requiredAmount)\<close> returns, as the outcome for
  one request: \<open>Next\<close> when it calls \<open>next()\<close>, the status and body it sends
  otherwise. A throw of the comparison is caught by the outer handler (status 500).
\<close>

definition requirePayment ::
  "Config \<Rightarrow> Chain \<Rightarrow> (string \<Rightarrow> jsval option) \<Rightarrow> (jsval \<Rightarrow> jsnum option) \<Rightarrow> nat \<Rightarrow>
   jsnum \<Rightarrow> Request \<Rightarrow> Outcome" where
  "requirePayment cfg chain jsonParse coerce now requiredAmount req =
     (if query_mock req = Some ''true'' then Next
      else
        (case x402_payment req of
           None \<Rightarrow> Respond 402 (PaymentRequired (paymentObject cfg requiredAmount))
         | Some paymentHeader \<Rightarrow>
             (if paymentHeader = [] then
                Respond 402 (PaymentRequired (paymentObject cfg requiredAmount))
              else
                (case parseX402Header jsonParse now paymentHeader of
                   None \<Rightarrow> Respond 400 InvalidPaymentHeader
                 | Some payment \<Rightarrow>
                     (case lt_number coerce (amount_h payment) requiredAmount of
                        None \<Rightarrow> Respond 500 InternalServerError
                      | Some insufficient \<Rightarrow>
                          (if insufficient then
                             Respond 402 (InsufficientPayment (paymentObject cfg requiredAmount))
                           else checkRecipientAndChain cfg chain requiredAmount payment))))))"

subsection \<open>The acceptance condition in the words of the specification\<close>

text \<open>
  The condition under which claim C2 has \<open>verifyPayment\<close> return \<open>true\<close>: the
  transaction exists, it did not fail, and either some post-balance record of the
  configured mint on the recipient's token account is within the tolerance of the
  expected amount, or there is no such record at all. Any throw gives \<open>false\<close>.
\<close>

definition recipientRecords :: "string \<Rightarrow> string list \<Rightarrow> string \<Rightarrow> TxTokenBalance list \<Rightarrow> TxTokenBalance list" where
  "recipientRecords usdc keys recipientAta postBalances =
     filter (\<lambda>pb. mint_b pb = usdc \<and> isRecipientAta keys recipientAta pb) postBalances"

definition withinTolerance :: "TxTokenBalance list \<Rightarrow> jsnum \<Rightarrow> TxTokenBalance \<Rightarrow> bool" where
  "withinTolerance preBalances expectedAmount pb =
     js_lt (js_abs (js_sub (amountReceived preBalances pb) expectedAmount)) (Num 1000)"

definition claimed_verifyPayment :: "Config \<Rightarrow> Chain \<Rightarrow> jsval \<Rightarrow> jsnum \<Rightarrow> string \<Rightarrow> bool" where
  "claimed_verifyPayment cfg chain sig expectedAmount expectedRecipient =
     (case (case sig of JString s \<Rightarrow> getTransaction chain s | _ \<Rightarrow> RpcError) of
        RpcError \<Rightarrow> False
      | NoTx \<Rightarrow> False
      | Tx tx \<Rightarrow>
          (case (meta tx, accountKeys tx, publicKey chain expectedRecipient, publicKey chain (USDC_MINT cfg)) of
             (Some m, Some ks, Some recipientPubkey, Some usdcMint) \<Rightarrow>
               (case getAssociatedTokenAddress chain usdcMint recipientPubkey of
                  None \<Rightarrow> False
                | Some recipientAta \<Rightarrow>
                    err m = None \<and>
                    (let records = recipientRecords (USDC_MINT cfg) ks recipientAta
                                     (case postTokenBalances m of None \<Rightarrow> [] | Some bs \<Rightarrow> bs)
                     in list_ex (withinTolerance (case preTokenBalances m of None \<Rightarrow> [] | Some bs \<Rightarrow> bs)
                                   expectedAmount) records
                        \<or> records = []))
           | _ \<Rightarrow> False))"

section \<open>Concrete inputs\<close>

text \<open>A ledger whose every call throws, and one that knows an empty wallet.\<close>

definition rpc_down :: Connection where
  "rpc_down = \<lparr> getBalance = (\<lambda>w. None), getParsedTokenAccountsByOwner = (\<lambda>w. None) \<rparr>"

definition empty_wallet :: Connection where
  "empty_wallet =
     \<lparr> getBalance = (\<lambda>w. Some 0), getParsedTokenAccountsByOwner = (\<lambda>w. Some []) \<rparr>"

definition no_price :: "string \<Rightarrow> real option" where
  "no_price = (\<lambda>s. None)"

definition some_wallet :: string where
  "some_wallet = ''So11111111111111111111111111111111111111112''"

text \<open>Both remote providers failing, and Kamino answering with ten strategies of 50% while Drift fails.\<close>

definition all_down :: Providers where
  "all_down = \<lparr> kaminoResponse = None, driftMarkets = DriftThrows \<rparr>"

definition half_strategy :: KaminoStrategy where
  "half_strategy =
     \<lparr> s_apy = Some 0.5, s_aprLatest = None, s_symbol = Some ''SOL'', s_tokenSymbol = None,
       s_tvl = Some 2000000, s_name = Some ''Vault'', s_strategyName = None \<rparr>"

definition kamino_only :: Providers where
  "kamino_only =
     \<lparr> kaminoResponse = Some (replicate 10 half_strategy), driftMarkets = DriftThrows \<rparr>"

text \<open>
  A merchant configuration and a ledger that knows two successful transactions: one that
  credits the merchant's token account with 1 unit, and one that moves no tokens at all.
  The header below carries a recipient and a signature and no amount.
\<close>

definition usdc_mint :: string where
  "usdc_mint = ''4zMMC9srt5Ri5X14GAgXhaHii3GnPAEERYPJgZJDncDU''"

definition merchant :: string where
  "merchant = ''9xQeWvG816bUx9EPjHmaT23yvVM2ZWbrrpZb9PusVFin''"

definition merchant_ata :: string where
  "merchant_ata = ''7UX2i7SucgLMQcfZ75s3VXmZZY4YRUyJN9X1RgfMoDUi''"

definition cfg0 :: Config where
  "cfg0 = \<lparr> RECIPIENT_WALLET = merchant, USDC_MINT = usdc_mint \<rparr>"

definition underpaid_tx :: TransactionResponse where
  "underpaid_tx =
     \<lparr> meta = Some \<lparr> err = None,
                     postTokenBalances = Some [\<lparr> accountIndex = 0, mint_b = usdc_mint, amount_b = 1 \<rparr>],
                     preTokenBalances = Some [\<lparr> accountIndex = 0, mint_b = usdc_mint, amount_b = 0 \<rparr>] \<rparr>,
       accountKeys = Some [merchant_ata] \<rparr>"

definition unrelated_tx :: TransactionResponse where
  "unrelated_tx =
     \<lparr> meta = Some \<lparr> err = None, postTokenBalances = Some [], preTokenBalances = Some [] \<rparr>,
       accountKeys = Some [] \<rparr>"

definition chain0 :: Chain where
  "chain0 =
     \<lparr> getTransaction = (\<lambda>s. if s = ''sigUnderpaid'' then Tx underpaid_tx
                              else if s = ''sigUnrelated'' then Tx unrelated_tx else NoTx),
       publicKey = (\<lambda>s. Some s),
       getAssociatedTokenAddress = (\<lambda>m owner. if m = usdc_mint \<and> owner = merchant then Some merchant_ata else None) \<rparr>"

definition header_no_amount :: string where
  \<open>header_no_amount = ''{"recipient":"9xQeWvG816bUx9EPjHmaT23yvVM2ZWbrrpZb9PusVFin","signature":"sigUnrelated"}''\<close>

text \<open>
  \<open>JSON.parse\<close> as far as the inputs below need it: the value of that header; no
  other string is parsed. None of these inputs reaches the conversion of a string or an
  object to a number, for which \<open>coerce0\<close> stands.
\<close>

definition parse0 :: "string \<Rightarrow> jsval option" where
  "parse0 s = (if s = header_no_amount
               then Some (JObject [(''recipient'', JString merchant), (''signature'', JString ''sigUnrelated'')])
               else None)"

definition coerce0 :: "jsval \<Rightarrow> jsnum option" where
  "coerce0 v = Some NaN"

definition request_no_amount :: Request where
  "request_no_amount = \<lparr> query_mock = None, x402_payment = Some header_no_amount \<rparr>"

section \<open>Portfolio total\<close>

lemma getMockPrice_pos: "0 < getMockPrice s"
  by (simp add: getMockPrice_def mockPrices_def)

lemma calculateUsdValue_mock: "calculateUsdValue gp s a True = a * getMockPrice s"
  by (simp add: calculateUsdValue_def)

lemma tokenBalanceOf_pos: "tokenBalanceOf gp acc = Some t \<Longrightarrow> 0 < usdValue t"
  by (auto simp: tokenBalanceOf_def calculateUsdValue_mock getMockPrice_pos Let_def
      split: option.splits if_splits)

lemma getTokenBalances_pos: "t \<in> set (getTokenBalances c gp w) \<Longrightarrow> 0 < usdValue t"
  by (auto simp: getTokenBalances_def List.map_filter_def tokenBalanceOf_pos split: option.splits)

lemma foldl_add: "foldl (\<lambda>sum x. sum + f x) (a::real) xs = a + sum_list (map f xs)"
  by (induction xs arbitrary: a) simp_all

lemma sum_list_pos_nonneg:
  "(\<And>x. x \<in> set xs \<Longrightarrow> 0 < f x) \<Longrightarrow> (0::real) \<le> sum_list (map f xs)"
  by (rule sum_list_nonneg) (auto intro: less_imp_le)

lemma sum_list_pos:
  "xs \<noteq> [] \<Longrightarrow> (\<And>x. x \<in> set xs \<Longrightarrow> 0 < f x) \<Longrightarrow> (0::real) < sum_list (map f xs)"
  by (cases xs) (auto intro!: add_pos_nonneg sum_list_pos_nonneg)

text \<open>
  On the normal path (the balance could be read) the total is the sum of the SOL value,
  the token values and the position values.
\<close>

lemma getPortfolioAnalytics_total_normal:
  "getBalance c w = Some b \<Longrightarrow>
   totalUsdValue (getPortfolioAnalytics c gp now w um) =
     solUsdValue (getPortfolioAnalytics c gp now w um)
     + sum_list (map usdValue (tokenBalances (getPortfolioAnalytics c gp now w um)))
     + sum_list (map usdValue_p (defiPositions (getPortfolioAnalytics c gp now w um)))"
  by (simp add: getPortfolioAnalytics_def Let_def foldl_add)

text \<open>
  Claim C4: every value that \<open>getPortfolioAnalytics\<close> returns has
  \<open>totalUsdValue = solUsdValue + sum of token values + sum of position values\<close>, on the
  error path too. The code at a wallet whose balance cannot be read: the handler returns
  the constant total 12847.5 beside parts that add up to 13364.5.
\<close>

theorem fallback_total_mismatch:
  "getBalance rpc_down some_wallet = None \<and>
   totalUsdValue (getPortfolioAnalytics rpc_down no_price 0 some_wallet False) = 12847.5 \<and>
   solUsdValue (getPortfolioAnalytics rpc_down no_price 0 some_wallet False)
     + sum_list (map usdValue
         (tokenBalances (getPortfolioAnalytics rpc_down no_price 0 some_wallet False)))
     + sum_list (map usdValue_p
         (defiPositions (getPortfolioAnalytics rpc_down no_price 0 some_wallet False)))
     = 13364.5"
  by (simp add: getPortfolioAnalytics_def rpc_down_def getMockTokenBalances_def
      getMockDefiPositions_def)

section \<open>Risk factors of an empty portfolio\<close>

lemma zero_total_shape:
  assumes "totalUsdValue (getPortfolioAnalytics c gp now w um) = 0"
  shows "tokenBalances (getPortfolioAnalytics c gp now w um) = [] \<and>
         defiPositions (getPortfolioAnalytics c gp now w um) = []"
proof (cases "getBalance c w")
  case None
  with assms show ?thesis by (simp add: getPortfolioAnalytics_def)
next
  case (Some b)
  have sol: "0 \<le> calculateUsdValue gp ''SOL'' (real b / 1000000000) True"
    by (simp add: calculateUsdValue_mock getMockPrice_def mockPrices_def)
  show ?thesis
  proof (cases um)
    case True
    with Some assms sol show ?thesis
      by (simp add: getPortfolioAnalytics_def Let_def getMockTokenBalances_def
          getMockDefiPositions_def)
  next
    case False
    have "getTokenBalances c gp w = []"
    proof (rule ccontr)
      assume ne: "getTokenBalances c gp w \<noteq> []"
      have "0 < sum_list (map usdValue (getTokenBalances c gp w))"
        by (rule sum_list_pos[OF ne]) (rule getTokenBalances_pos)
      with Some False assms sol show False
        by (simp add: getPortfolioAnalytics_def Let_def foldl_add getMarginfiPositions_def)
    qed
    with Some False show ?thesis
      by (simp add: getPortfolioAnalytics_def Let_def getMarginfiPositions_def)
  qed
qed

text \<open>
  Claim C3: for every portfolio snapshot whose \<open>totalUsdValue\<close> is 0, the scorer
  returns 0 for \<open>concentrationRisk\<close> and \<open>liquidationRisk\<close>, and no \<open>NaN\<close> or
  infinity reaches the returned score. The snapshots are those that
  \<open>calculateRiskScore\<close> retrieves from \<open>getPortfolioAnalytics\<close>; one with total 0
  has no token balance and no position, and its score is 30.
\<close>

theorem zero_total_factors:
  assumes "totalUsdValue (getPortfolioAnalytics c gp now w um) = 0"
  shows "concentrationRisk (factors (calculateRiskScore c gp now w um)) = Num 0 \<and>
         liquidationRisk (factors (calculateRiskScore c gp now w um)) = Num 0 \<and>
         protocolDiversification (factors (calculateRiskScore c gp now w um)) = Num 100 \<and>
         overallScore (calculateRiskScore c gp now w um) = Num 30"
  using zero_total_shape[OF assms]
  by (simp add: calculateRiskScore_def calculateRiskScore_settled_def scorePortfolio_def Let_def
      concentrationRiskOf_def maxConcentrationOf_def liquidationRiskOf_def Math_max_def
      js_max2_def protocolDiversificationOf_def overallScoreOf_def healthFactorTerm_def
      js_min2_def)

theorem zero_total_factors_witness:
  "totalUsdValue (getPortfolioAnalytics empty_wallet no_price 0 some_wallet False) = 0 \<and>
   concentrationRisk (factors (calculateRiskScore empty_wallet no_price 0 some_wallet False)) = Num 0 \<and>
   liquidationRisk (factors (calculateRiskScore empty_wallet no_price 0 some_wallet False)) = Num 0 \<and>
   overallScore (calculateRiskScore empty_wallet no_price 0 some_wallet False) = Num 30"
proof -
  have h: "totalUsdValue (getPortfolioAnalytics empty_wallet no_price 0 some_wallet False) = 0"
    by (simp add: getPortfolioAnalytics_def empty_wallet_def getTokenBalances_def
        getMarginfiPositions_def calculateUsdValue_def Let_def)
  show ?thesis using h zero_total_factors[OF h] by simp
qed

section \<open>The composite score\<close>

text \<open>
  Claim C6: for every portfolio snapshot the returned \<open>overallScore\<close> is
  \<open>min(100, concentrationRisk * 0.3 + liquidationRisk * 0.4 + protocolDiversification * 0.2
  + term)\<close> over the returned factors, where the term is \<open>max(0, (2 - healthFactor) * 50)\<close>
  when the returned \<open>healthFactor\<close> is present and 10 when it is absent; \<open>riskLevel\<close>
  is low below 25, medium below 50, high below 75 and critical otherwise. This holds
  of the score of every snapshot, and \<open>calculateRiskScore\<close> returns the score of the
  snapshot it retrieves. No returned score carries a health factor.
\<close>

theorem overallScore_formula:
  "overallScore (scorePortfolio p w now) =
     js_min2 (Num 100)
       (js_add
          (js_add
             (js_add (js_mul (concentrationRisk (factors (scorePortfolio p w now))) (Num 0.3))
                     (js_mul (liquidationRisk (factors (scorePortfolio p w now))) (Num 0.4)))
             (js_mul (protocolDiversification (factors (scorePortfolio p w now))) (Num 0.2)))
          (case healthFactor (factors (scorePortfolio p w now)) of
             None \<Rightarrow> Num 10
           | Some h \<Rightarrow> js_max2 (Num 0) (js_mul (js_sub (Num 2) h) (Num 50)))) \<and>
   riskLevel (scorePortfolio p w now) =
     (if js_lt (overallScore (scorePortfolio p w now)) (Num 25) then low
      else if js_lt (overallScore (scorePortfolio p w now)) (Num 50) then medium
      else if js_lt (overallScore (scorePortfolio p w now)) (Num 75) then high
      else critical) \<and>
   healthFactor (factors (scorePortfolio p w now)) = None \<and>
   calculateRiskScore c gp now w um =
     scorePortfolio (getPortfolioAnalytics c gp now w um) w now"
  by (simp add: scorePortfolio_def Let_def overallScoreOf_def riskLevelOf_def
      healthFactorTerm_def calculateRiskScore_def calculateRiskScore_settled_def)

section \<open>The handler of the risk score\<close>




section \<open>Yield aggregation\<close>

lemma sortByApyDesc_stable:
  "filter (\<lambda>opp. apy opp = a) (sortByApyDesc xs) = filter (\<lambda>opp. apy opp = a) xs"
proof -
  have "filter (\<lambda>opp. - apy opp = - a) (sort_key (\<lambda>opp. - apy opp) xs) =
        filter (\<lambda>opp. - apy opp = - a) xs"
    by (rule sort_key_stable)
  then show ?thesis by (simp add: sortByApyDesc_def)
qed

lemma sortByApyDesc_sorted: "sorted_wrt (\<lambda>a b. apy b \<le> apy a) (sortByApyDesc xs)"
proof -
  have "sorted (map (\<lambda>opp. - apy opp) (sort_key (\<lambda>opp. - apy opp) xs))"
    by (rule sorted_sort_key)
  then show ?thesis by (simp add: sortByApyDesc_def sorted_map sorted_wrt_map)
qed

lemma merged_mock:
  "sortByApyDesc (getMockKaminoYields @ getMockMarginfiYields @ getMockDriftYields) =
     [getMockKaminoYields ! 2, getMockKaminoYields ! 1, getMockDriftYields ! 1,
      getMockMarginfiYields ! 1, getMockMarginfiYields ! 2, getMockKaminoYields ! 0,
      getMockMarginfiYields ! 0, getMockDriftYields ! 0, getMockDriftYields ! 2]"
  by (simp add: sortByApyDesc_def getMockKaminoYields_def getMockMarginfiYields_def
      getMockDriftYields_def)

text \<open>
  Claim C8: with \<open>useMock = true\<close> the call returns a list of at most 10 elements,
  sorted non-increasing by \<open>apy\<close>, the same for every call, and with entries of equal
  \<open>apy\<close> in the order of the merged tables (Kamino, Marginfi, Drift); the sort keeps
  that order on every input.
\<close>

theorem mock_yields:
  "\<exists>r r'. getBestYields p now True = Some r \<and> getBestYields p' now' True = Some r' \<and>
     length (topOpportunities r) \<le> 10 \<and>
     sorted_wrt (\<lambda>a b. apy b \<le> apy a) (topOpportunities r) \<and>
     topOpportunities r = topOpportunities r' \<and>
     map apy (topOpportunities r) = [18.5, 12.3, 11.2, 9.8, 9.5, 7.85, 6.2, 5.8, 4.5] \<and>
     map protocol_y (topOpportunities r) =
       [''Kamino'', ''Kamino'', ''Drift'', ''Marginfi'', ''Marginfi'', ''Kamino'', ''Marginfi'',
        ''Drift'', ''Drift''] \<and>
     filter (\<lambda>opp. apy opp = a) (topOpportunities r) =
       filter (\<lambda>opp. apy opp = a)
         (getMockKaminoYields @ getMockMarginfiYields @ getMockDriftYields) \<and>
     filter (\<lambda>opp. apy opp = a) (sortByApyDesc xs) = filter (\<lambda>opp. apy opp = a) xs \<and>
     source r = mock"
proof -
  let ?m = "getMockKaminoYields @ getMockMarginfiYields @ getMockDriftYields"
  have len: "length (sortByApyDesc ?m) = 9"
    by (simp add: sortByApyDesc_def getMockKaminoYields_def getMockMarginfiYields_def
        getMockDriftYields_def)
  have ret: "getBestYields q n True =
      Some \<lparr> topOpportunities = sortByApyDesc ?m, timestamp_b = n, source = mock \<rparr>" for q n
    using len by (simp add: getBestYields_def)
  have vals: "map apy (sortByApyDesc ?m) = [18.5, 12.3, 11.2, 9.8, 9.5, 7.85, 6.2, 5.8, 4.5]"
    by (simp add: merged_mock)
       (simp add: getMockKaminoYields_def getMockMarginfiYields_def getMockDriftYields_def)
  have prots: "map protocol_y (sortByApyDesc ?m) =
     [''Kamino'', ''Kamino'', ''Drift'', ''Marginfi'', ''Marginfi'', ''Kamino'', ''Marginfi'',
      ''Drift'', ''Drift'']"
    by (simp add: merged_mock)
       (simp add: getMockKaminoYields_def getMockMarginfiYields_def getMockDriftYields_def)
  show ?thesis
    unfolding ret
    using len vals prots sortByApyDesc_sorted[of ?m] sortByApyDesc_stable[of a ?m]
      sortByApyDesc_stable[of a xs]
    by simp
qed

text \<open>
  Without \<open>useMock\<close> the merged list always holds the Marginfi table, so a call that
  returns marks its result live.
\<close>

lemma source_always_live:
  "getBestYields p now False = Some r \<Longrightarrow> source r = live"
  by (auto simp: getBestYields_def Let_def fulfilledValue_def fetchMarginfiYields_def
      getMockMarginfiYields_def split: option.splits)

text \<open>The call returns exactly when the Drift fetch settles; the code sets no timeout on it.\<close>

lemma getBestYields_returns_iff:
  "(\<exists>r. getBestYields p now False = Some r) \<longleftrightarrow> driftMarkets p \<noteq> DriftNeverSettles"
  by (cases "driftMarkets p") (simp_all add: getBestYields_def fetchDriftYields_def Let_def)

text \<open>
  Claim C5: without \<open>useMock\<close> the source is live exactly when some provider
  contributed a result that is not its fallback, and mock when every provider fell back.
  The code with both remote providers failing: the call returns the opportunities of the
  static tables, the same list as with \<open>useMock\<close>, and the source is live.
\<close>

theorem all_fallback_marked_live:
  "kaminoResponse all_down = None \<and> driftMarkets all_down = DriftThrows \<and>
   map_option source (getBestYields all_down 0 False) = Some live \<and>
   map_option topOpportunities (getBestYields all_down 0 False) =
     map_option topOpportunities (getBestYields all_down 0 True) \<and>
   getBestYields all_down 0 False \<noteq> None \<and>
   map_option source (getBestYields all_down 0 True) = Some mock"
  by (simp add: getBestYields_def Let_def fulfilledValue_def fetchMarginfiYields_def
      getMockMarginfiYields_def all_down_def fetchKaminoYields_def fetchDriftYields_def)

lemma top_of_merged:
  assumes "xs \<noteq> []"
  shows "take 10 (sortByApyDesc xs) \<noteq> [] \<and>
         length (take 10 (sortByApyDesc xs)) = min 10 (length xs) \<and>
         sorted_wrt (\<lambda>a b. apy b \<le> apy a) (take 10 (sortByApyDesc xs)) \<and>
         mset (take 10 (sortByApyDesc xs)) \<subseteq># mset xs \<and>
         (\<forall>x \<in># mset xs - mset (take 10 (sortByApyDesc xs)).
            \<forall>y \<in> set (take 10 (sortByApyDesc xs)). apy x \<le> apy y) \<and>
         (length xs \<le> 10 \<longrightarrow> mset (take 10 (sortByApyDesc xs)) = mset xs)"
proof -
  let ?s = "sortByApyDesc xs"
  have len: "length ?s = length xs" by (simp add: sortByApyDesc_def)
  have ms: "mset ?s = mset xs" by (simp add: sortByApyDesc_def)
  have split: "mset xs = mset (take 10 ?s) + mset (drop 10 ?s)"
    using ms by (metis append_take_drop_id mset_append)
  have srt: "sorted_wrt (\<lambda>a b. apy b \<le> apy a) (take 10 ?s @ drop 10 ?s)"
    using sortByApyDesc_sorted[of xs] by simp
  have ne: "take 10 ?s \<noteq> []" using assms len by (cases ?s) auto
  have l: "length (take 10 ?s) = min 10 (length xs)" using len by (simp add: min.commute)
  have app: "sorted_wrt (\<lambda>a b. apy b \<le> apy a) (take 10 ?s) \<and>
      sorted_wrt (\<lambda>a b. apy b \<le> apy a) (drop 10 ?s) \<and>
      (\<forall>y \<in> set (take 10 ?s). \<forall>x \<in> set (drop 10 ?s). apy x \<le> apy y)"
    using srt by (rule iffD1[OF sorted_wrt_append])
  have st: "sorted_wrt (\<lambda>a b. apy b \<le> apy a) (take 10 ?s)"
    using app by blast
  have sub: "mset (take 10 ?s) \<subseteq># mset xs" using split by simp
  have rest: "mset xs - mset (take 10 ?s) = mset (drop 10 ?s)" using split by simp
  have cutoff: "\<forall>x \<in># mset xs - mset (take 10 ?s). \<forall>y \<in> set (take 10 ?s). apy x \<le> apy y"
    unfolding rest using app by auto
  have whole: "length xs \<le> 10 \<longrightarrow> mset (take 10 ?s) = mset xs"
    using len ms by simp
  show ?thesis using ne l st sub cutoff whole by blast
qed

text \<open>
  Claim C7, as stated, has the result contain the contributions of the two other
  providers and the fallback set of the failing one. With Drift failing and Kamino
  answering ten strategies of 50%, the ten entries returned are all Kamino's: the cut to
  ten entries removed every Marginfi entry and the whole Drift fallback set.
\<close>

theorem truncation_counterexample:
  "driftMarkets kamino_only = DriftThrows \<and>
   map_option (\<lambda>r. length (topOpportunities r)) (getBestYields kamino_only 0 False) = Some 10 \<and>
   map_option (\<lambda>r. filter (\<lambda>opp. protocol_y opp = ''Kamino'') (topOpportunities r))
     (getBestYields kamino_only 0 False) =
     map_option topOpportunities (getBestYields kamino_only 0 False) \<and>
   map_option (\<lambda>r. filter (\<lambda>opp. protocol_y opp = ''Marginfi'') (topOpportunities r))
     (getBestYields kamino_only 0 False) = Some [] \<and>
   map_option (\<lambda>r. filter (\<lambda>opp. protocol_y opp = ''Drift'') (topOpportunities r))
     (getBestYields kamino_only 0 False) = Some []"
  by (simp add: getBestYields_def Let_def fulfilledValue_def fetchMarginfiYields_def
      kamino_only_def fetchKaminoYields_def fetchDriftYields_def List.map_filter_def
      kaminoOpportunity_def half_strategy_def num_or_def str_or_def sortByApyDesc_def
      getMockMarginfiYields_def getMockDriftYields_def numeral_eq_Suc)

text \<open>
  Claim C7, as amended: when the Kamino fetch errors or times out and the Drift fetch
  settles, or when the Drift fetch throws, the call returns, and the list it returns is
  not empty. Let the merged list be the failing provider's fallback set together with
  what the other two providers contribute. The returned list has \<open>min(10, n)\<close> of the
  \<open>n\<close> merged entries, is sorted non-increasing by \<open>apy\<close>, and no entry left out has
  a higher \<open>apy\<close> than a returned one; the merged list is returned whole when it has at
  most ten entries.
\<close>

theorem one_provider_fails:
  "(kaminoResponse p = None \<and> fetchDriftYields (driftMarkets p) = Some d \<longrightarrow>
      (\<exists>r. getBestYields p now False = Some r \<and>
         topOpportunities r =
           take 10 (sortByApyDesc (getMockKaminoYields @ getMockMarginfiYields @ d)) \<and>
         topOpportunities r \<noteq> [] \<and>
         length (topOpportunities r) =
           min 10 (length (getMockKaminoYields @ getMockMarginfiYields @ d)) \<and>
         sorted_wrt (\<lambda>a b. apy b \<le> apy a) (topOpportunities r) \<and>
         mset (topOpportunities r) \<subseteq># mset (getMockKaminoYields @ getMockMarginfiYields @ d) \<and>
         (\<forall>x \<in># mset (getMockKaminoYields @ getMockMarginfiYields @ d) -
                  mset (topOpportunities r).
            \<forall>y \<in> set (topOpportunities r). apy x \<le> apy y) \<and>
         (length (getMockKaminoYields @ getMockMarginfiYields @ d) \<le> 10 \<longrightarrow>
            mset (topOpportunities r) =
              mset (getMockKaminoYields @ getMockMarginfiYields @ d)))) \<and>
   (driftMarkets p = DriftThrows \<longrightarrow>
      (\<exists>r. getBestYields p now False = Some r \<and>
         topOpportunities r =
           take 10 (sortByApyDesc
             (fetchKaminoYields (kaminoResponse p) @ getMockMarginfiYields @
              getMockDriftYields)) \<and>
         topOpportunities r \<noteq> [] \<and>
         length (topOpportunities r) =
           min 10 (length (fetchKaminoYields (kaminoResponse p) @ getMockMarginfiYields @
                           getMockDriftYields)) \<and>
         sorted_wrt (\<lambda>a b. apy b \<le> apy a) (topOpportunities r) \<and>
         mset (topOpportunities r) \<subseteq>#
           mset (fetchKaminoYields (kaminoResponse p) @ getMockMarginfiYields @
                 getMockDriftYields) \<and>
         (\<forall>x \<in># mset (fetchKaminoYields (kaminoResponse p) @ getMockMarginfiYields @
                        getMockDriftYields) - mset (topOpportunities r).
            \<forall>y \<in> set (topOpportunities r). apy x \<le> apy y) \<and>
         (length (fetchKaminoYields (kaminoResponse p) @ getMockMarginfiYields @
                  getMockDriftYields) \<le> 10 \<longrightarrow>
            mset (topOpportunities r) =
              mset (fetchKaminoYields (kaminoResponse p) @ getMockMarginfiYields @
                    getMockDriftYields))))"
proof -
  have lm: "length getMockMarginfiYields = 3" by (simp add: getMockMarginfiYields_def)
  have ne: "a @ getMockMarginfiYields @ b \<noteq> []" for a b :: "YieldOpportunity list"
    using lm by auto
  have ret: "fetchDriftYields (driftMarkets p) = Some dv \<Longrightarrow>
      getBestYields p now False =
        Some \<lparr> topOpportunities =
                 take 10 (sortByApyDesc
                   (fetchKaminoYields (kaminoResponse p) @ getMockMarginfiYields @ dv)),
               timestamp_b = now, source = live \<rparr>" for dv
    using ne[of "fetchKaminoYields (kaminoResponse p)" dv]
    by (simp add: getBestYields_def Let_def fulfilledValue_def fetchMarginfiYields_def)
  have k: "fetchKaminoYields None = getMockKaminoYields" by (simp add: fetchKaminoYields_def)
  have d: "fetchDriftYields DriftThrows = Some getMockDriftYields"
    by (simp add: fetchDriftYields_def)
  have first: "kaminoResponse p = None \<and> fetchDriftYields (driftMarkets p) = Some d \<longrightarrow>
      (\<exists>r. getBestYields p now False = Some r \<and>
         topOpportunities r =
           take 10 (sortByApyDesc (getMockKaminoYields @ getMockMarginfiYields @ d)) \<and>
         topOpportunities r \<noteq> [] \<and>
         length (topOpportunities r) =
           min 10 (length (getMockKaminoYields @ getMockMarginfiYields @ d)) \<and>
         sorted_wrt (\<lambda>a b. apy b \<le> apy a) (topOpportunities r) \<and>
         mset (topOpportunities r) \<subseteq># mset (getMockKaminoYields @ getMockMarginfiYields @ d) \<and>
         (\<forall>x \<in># mset (getMockKaminoYields @ getMockMarginfiYields @ d) -
                  mset (topOpportunities r).
            \<forall>y \<in> set (topOpportunities r). apy x \<le> apy y) \<and>
         (length (getMockKaminoYields @ getMockMarginfiYields @ d) \<le> 10 \<longrightarrow>
            mset (topOpportunities r) =
              mset (getMockKaminoYields @ getMockMarginfiYields @ d)))"
  proof
    assume h: "kaminoResponse p = None \<and> fetchDriftYields (driftMarkets p) = Some d"
    then have r: "getBestYields p now False =
        Some \<lparr> topOpportunities =
                 take 10 (sortByApyDesc (getMockKaminoYields @ getMockMarginfiYields @ d)),
               timestamp_b = now, source = live \<rparr>"
      using ret[of d] k by simp
    show "\<exists>r. getBestYields p now False = Some r \<and>
         topOpportunities r =
           take 10 (sortByApyDesc (getMockKaminoYields @ getMockMarginfiYields @ d)) \<and>
         topOpportunities r \<noteq> [] \<and>
         length (topOpportunities r) =
           min 10 (length (getMockKaminoYields @ getMockMarginfiYields @ d)) \<and>
         sorted_wrt (\<lambda>a b. apy b \<le> apy a) (topOpportunities r) \<and>
         mset (topOpportunities r) \<subseteq># mset (getMockKaminoYields @ getMockMarginfiYields @ d) \<and>
         (\<forall>x \<in># mset (getMockKaminoYields @ getMockMarginfiYields @ d) -
                  mset (topOpportunities r).
            \<forall>y \<in> set (topOpportunities r). apy x \<le> apy y) \<and>
         (length (getMockKaminoYields @ getMockMarginfiYields @ d) \<le> 10 \<longrightarrow>
            mset (topOpportunities r) =
              mset (getMockKaminoYields @ getMockMarginfiYields @ d))"
      unfolding r using top_of_merged[OF ne[of getMockKaminoYields d]] by simp
  qed
  have second: "driftMarkets p = DriftThrows \<longrightarrow>
      (\<exists>r. getBestYields p now False = Some r \<and>
         topOpportunities r =
           take 10 (sortByApyDesc
             (fetchKaminoYields (kaminoResponse p) @ getMockMarginfiYields @
              getMockDriftYields)) \<and>
         topOpportunities r \<noteq> [] \<and>
         length (topOpportunities r) =
           min 10 (length (fetchKaminoYields (kaminoResponse p) @ getMockMarginfiYields @
                           getMockDriftYields)) \<and>
         sorted_wrt (\<lambda>a b. apy b \<le> apy a) (topOpportunities r) \<and>
         mset (topOpportunities r) \<subseteq>#
           mset (fetchKaminoYields (kaminoResponse p) @ getMockMarginfiYields @
                 getMockDriftYields) \<and>
         (\<forall>x \<in># mset (fetchKaminoYields (kaminoResponse p) @ getMockMarginfiYields @
                        getMockDriftYields) - mset (topOpportunities r).
            \<forall>y \<in> set (topOpportunities r). apy x \<le> apy y) \<and>
         (length (fetchKaminoYields (kaminoResponse p) @ getMockMarginfiYields @
                  getMockDriftYields) \<le> 10 \<longrightarrow>
            mset (topOpportunities r) =
              mset (fetchKaminoYields (kaminoResponse p) @ getMockMarginfiYields @
                    getMockDriftYields)))"
  proof
    assume h: "driftMarkets p = DriftThrows"
    then have r: "getBestYields p now False =
        Some \<lparr> topOpportunities =
                 take 10 (sortByApyDesc
                   (fetchKaminoYields (kaminoResponse p) @ getMockMarginfiYields @
                    getMockDriftYields)),
               timestamp_b = now, source = live \<rparr>"
      using ret[of getMockDriftYields] d by simp
    show "\<exists>r. getBestYields p now False = Some r \<and>
         topOpportunities r =
           take 10 (sortByApyDesc
             (fetchKaminoYields (kaminoResponse p) @ getMockMarginfiYields @
              getMockDriftYields)) \<and>
         topOpportunities r \<noteq> [] \<and>
         length (topOpportunities r) =
           min 10 (length (fetchKaminoYields (kaminoResponse p) @ getMockMarginfiYields @
                           getMockDriftYields)) \<and>
         sorted_wrt (\<lambda>a b. apy b \<le> apy a) (topOpportunities r) \<and>
         mset (topOpportunities r) \<subseteq>#
           mset (fetchKaminoYields (kaminoResponse p) @ getMockMarginfiYields @
                 getMockDriftYields) \<and>
         (\<forall>x \<in># mset (fetchKaminoYields (kaminoResponse p) @ getMockMarginfiYields @
                        getMockDriftYields) - mset (topOpportunities r).
            \<forall>y \<in> set (topOpportunities r). apy x \<le> apy y) \<and>
         (length (fetchKaminoYields (kaminoResponse p) @ getMockMarginfiYields @
                  getMockDriftYields) \<le> 10 \<longrightarrow>
            mset (topOpportunities r) =
              mset (fetchKaminoYields (kaminoResponse p) @ getMockMarginfiYields @
                    getMockDriftYields))"
      unfolding r
      using top_of_merged[OF ne[of "fetchKaminoYields (kaminoResponse p)" getMockDriftYields]]
      by simp
  qed
  show ?thesis using first second by (rule conjI)
qed

theorem one_provider_fails_witness:
  "kaminoResponse all_down = None \<and>
   fetchDriftYields (driftMarkets all_down) = Some getMockDriftYields \<and>
   (\<exists>r. getBestYields all_down 0 False = Some r \<and>
      topOpportunities r \<noteq> [] \<and>
      sorted_wrt (\<lambda>a b. apy b \<le> apy a) (topOpportunities r) \<and>
      mset (topOpportunities r) =
        mset (getMockKaminoYields @ getMockMarginfiYields @ getMockDriftYields))"
proof -
  have h: "kaminoResponse all_down = None" by (simp add: all_down_def)
  have d: "fetchDriftYields (driftMarkets all_down) = Some getMockDriftYields"
    by (simp add: all_down_def fetchDriftYields_def)
  have l: "length (getMockKaminoYields @ getMockMarginfiYields @ getMockDriftYields) \<le> 10"
    by (simp add: getMockKaminoYields_def getMockMarginfiYields_def getMockDriftYields_def)
  show ?thesis
    using h d l one_provider_fails[of all_down getMockDriftYields 0] by blast
qed

section \<open>Verification on the ledger\<close>

lemma scan_throws:
  "scanPostBalances usdc keys ata pre expected post = Inl Thrown \<longleftrightarrow>
     keys = None \<and> filter (\<lambda>pb. mint_b pb = usdc) post \<noteq> []"
  by (induction post) (auto split: option.splits)

lemma scan_returns:
  "(\<exists>b. scanPostBalances usdc keys ata pre expected post = Inr b) \<longleftrightarrow>
     ((\<exists>ks. keys = Some ks) \<or> filter (\<lambda>pb. mint_b pb = usdc) post = [])"
proof (cases "scanPostBalances usdc keys ata pre expected post")
  case (Inl e)
  then have "scanPostBalances usdc keys ata pre expected post = Inl Thrown" by (cases e) simp
  with Inl show ?thesis using scan_throws[of usdc keys ata pre expected post] by auto
next
  case (Inr b)
  then have "scanPostBalances usdc keys ata pre expected post \<noteq> Inl Thrown" by simp
  with Inr show ?thesis using scan_throws[of usdc keys ata pre expected post] by auto
qed

lemma verifyPayment_Tx:
  "verifyPayment cfg chain sig expected rcpt \<longleftrightarrow>
     (\<exists>s tx m rk mk ata b.
        sig = JString s \<and> getTransaction chain s = Tx tx \<and> meta tx = Some m \<and> err m = None \<and>
        publicKey chain rcpt = Some rk \<and> publicKey chain (USDC_MINT cfg) = Some mk \<and>
        getAssociatedTokenAddress chain mk rk = Some ata \<and>
        scanPostBalances (USDC_MINT cfg) (accountKeys tx) ata
          (case preTokenBalances m of None \<Rightarrow> [] | Some bs \<Rightarrow> bs) expected
          (case postTokenBalances m of None \<Rightarrow> [] | Some bs \<Rightarrow> bs) = Inr b)"
  unfolding verifyPayment_def
  by (auto split: jsval.splits TxFetch.splits option.splits sum.splits)


text \<open>
  Claim C2, as stated: \<open>verifyPayment\<close> returns \<open>true\<close> exactly when the transaction
  exists, did not fail, and a record of the recipient's token account is within the
  tolerance or no such record exists. For a successful transaction that credits the
  recipient's token account with 1 unit where 50000 are expected, a record exists and is
  outside the tolerance; the loop ends and the function returns \<open>true\<close>.
\<close>

theorem underpaid_counterexample:
  "verifyPayment cfg0 chain0 (JString ''sigUnderpaid'') (Num 50000) merchant = True \<and>
   claimed_verifyPayment cfg0 chain0 (JString ''sigUnderpaid'') (Num 50000) merchant = False"
  by (simp add: verifyPayment_def claimed_verifyPayment_def cfg0_def chain0_def underpaid_tx_def
      recipientRecords_def withinTolerance_def isRecipientAta_def amountReceived_def js_sub_def)

text \<open>
  Claim C2, as amended: \<open>verifyPayment\<close> returns \<open>true\<close> exactly when the signature
  is a string, the transaction is found with its meta, its \<open>err\<close> is \<open>null\<close>, and no
  step throws: the two public keys can be built, the associated token address can be
  derived, and \<open>getAccountKeys\<close> succeeds or no post-balance record has the configured
  mint. The balance records decide nothing else: a record of the recipient's account
  within the tolerance returns \<open>true\<close> at once, and every other case, a record outside
  the tolerance included, reaches the final \<open>return true\<close>.
\<close>

theorem verifyPayment_iff:
  "verifyPayment cfg chain sig expected rcpt \<longleftrightarrow>
     (\<exists>s tx m rk mk ata.
        sig = JString s \<and> getTransaction chain s = Tx tx \<and> meta tx = Some m \<and> err m = None \<and>
        publicKey chain rcpt = Some rk \<and> publicKey chain (USDC_MINT cfg) = Some mk \<and>
        getAssociatedTokenAddress chain mk rk = Some ata \<and>
        ((\<exists>ks. accountKeys tx = Some ks) \<or>
         filter (\<lambda>pb. mint_b pb = USDC_MINT cfg)
           (case postTokenBalances m of None \<Rightarrow> [] | Some bs \<Rightarrow> bs) = []))"
proof
  assume "verifyPayment cfg chain sig expected rcpt"
  then obtain s tx m rk mk ata b where
    h: "sig = JString s" "getTransaction chain s = Tx tx" "meta tx = Some m" "err m = None"
       "publicKey chain rcpt = Some rk" "publicKey chain (USDC_MINT cfg) = Some mk"
       "getAssociatedTokenAddress chain mk rk = Some ata"
    and sc: "scanPostBalances (USDC_MINT cfg) (accountKeys tx) ata
          (case preTokenBalances m of None \<Rightarrow> [] | Some bs \<Rightarrow> bs) expected
          (case postTokenBalances m of None \<Rightarrow> [] | Some bs \<Rightarrow> bs) = Inr b"
    unfolding verifyPayment_Tx by blast
  from sc have "(\<exists>ks. accountKeys tx = Some ks) \<or>
         filter (\<lambda>pb. mint_b pb = USDC_MINT cfg)
           (case postTokenBalances m of None \<Rightarrow> [] | Some bs \<Rightarrow> bs) = []"
    using scan_returns by blast
  with h show "\<exists>s tx m rk mk ata.
        sig = JString s \<and> getTransaction chain s = Tx tx \<and> meta tx = Some m \<and> err m = None \<and>
        publicKey chain rcpt = Some rk \<and> publicKey chain (USDC_MINT cfg) = Some mk \<and>
        getAssociatedTokenAddress chain mk rk = Some ata \<and>
        ((\<exists>ks. accountKeys tx = Some ks) \<or>
         filter (\<lambda>pb. mint_b pb = USDC_MINT cfg)
           (case postTokenBalances m of None \<Rightarrow> [] | Some bs \<Rightarrow> bs) = [])"
    by blast
next
  assume "\<exists>s tx m rk mk ata.
        sig = JString s \<and> getTransaction chain s = Tx tx \<and> meta tx = Some m \<and> err m = None \<and>
        publicKey chain rcpt = Some rk \<and> publicKey chain (USDC_MINT cfg) = Some mk \<and>
        getAssociatedTokenAddress chain mk rk = Some ata \<and>
        ((\<exists>ks. accountKeys tx = Some ks) \<or>
         filter (\<lambda>pb. mint_b pb = USDC_MINT cfg)
           (case postTokenBalances m of None \<Rightarrow> [] | Some bs \<Rightarrow> bs) = [])"
  then obtain s tx m rk mk ata where
    h: "sig = JString s" "getTransaction chain s = Tx tx" "meta tx = Some m" "err m = None"
       "publicKey chain rcpt = Some rk" "publicKey chain (USDC_MINT cfg) = Some mk"
       "getAssociatedTokenAddress chain mk rk = Some ata"
    and k: "(\<exists>ks. accountKeys tx = Some ks) \<or>
         filter (\<lambda>pb. mint_b pb = USDC_MINT cfg)
           (case postTokenBalances m of None \<Rightarrow> [] | Some bs \<Rightarrow> bs) = []"
    by blast
  from k obtain b where "scanPostBalances (USDC_MINT cfg) (accountKeys tx) ata
          (case preTokenBalances m of None \<Rightarrow> [] | Some bs \<Rightarrow> bs) expected
          (case postTokenBalances m of None \<Rightarrow> [] | Some bs \<Rightarrow> bs) = Inr b"
    using scan_returns by blast
  with h show "verifyPayment cfg chain sig expected rcpt"
    unfolding verifyPayment_Tx by blast
qed



theorem verifyPayment_iff_witness:
  "verifyPayment cfg0 chain0 (JString ''sigUnrelated'') (Num 50000) merchant \<and>
   (\<exists>s tx m rk mk ata.
        JString ''sigUnrelated'' = JString s \<and> getTransaction chain0 s = Tx tx \<and>
        meta tx = Some m \<and> err m = None \<and>
        publicKey chain0 merchant = Some rk \<and> publicKey chain0 (USDC_MINT cfg0) = Some mk \<and>
        getAssociatedTokenAddress chain0 mk rk = Some ata \<and>
        ((\<exists>ks. accountKeys tx = Some ks) \<or>
         filter (\<lambda>pb. mint_b pb = USDC_MINT cfg0)
           (case postTokenBalances m of None \<Rightarrow> [] | Some bs \<Rightarrow> bs) = []))"
proof -
  have v: "verifyPayment cfg0 chain0 (JString ''sigUnrelated'') (Num 50000) merchant"
    by (simp add: verifyPayment_def cfg0_def chain0_def unrelated_tx_def)
  show ?thesis by (rule conjI[OF v iffD1[OF verifyPayment_iff v]])
qed

section \<open>The payment middleware\<close>

lemma parsed_no_amount:
  "parseX402Header parse0 0 header_no_amount =
     Some \<lparr> amount_h = Undefined, token_h = Undefined, sender = Undefined,
            recipient = JString merchant, signature = JString ''sigUnrelated'',
            timestamp_h = JNumber (Num 0) \<rparr>"
proof -
  have m: "merchant \<noteq> []" by (simp add: merchant_def)
  show ?thesis using m by (simp add: parseX402Header_def parse0_def js_or_def)
qed

lemma verify_unrelated:
  "verifyPayment cfg0 chain0 (JString ''sigUnrelated'') (Num 50000) merchant"
  by (simp add: verifyPayment_def cfg0_def chain0_def unrelated_tx_def)

lemma header_nonempty: "header_no_amount \<noteq> []"
  by (simp add: header_no_amount_def)

lemma parse_non_null:
  assumes "jsonParse h = Some v" and "v \<noteq> JNull" and "v \<noteq> Undefined"
  shows "\<exists>pay. parseX402Header jsonParse now h = Some pay \<and>
               amount_h pay = firstPresent v [''amount'', ''value'']"
proof -
  from assms(2,3) obtain a where "getProp v ''amount'' = Inr a"
    by (cases v) simp_all
  with assms(1) show ?thesis by (simp add: parseX402Header_def)
qed

lemma checkRecipientAndChain_outcomes:
  "checkRecipientAndChain cfg chain R pay = Respond 400 InvalidRecipient \<or>
   checkRecipientAndChain cfg chain R pay = Respond 402 PaymentVerificationFailed \<or>
   checkRecipientAndChain cfg chain R pay = Next"
  by (simp add: checkRecipientAndChain_def)

lemma requirePayment_branches:
  assumes "query_mock req \<noteq> Some ''true''"
  shows "requirePayment cfg chain jsonParse coerce now R req =
     (case x402_payment req of
        None \<Rightarrow> Respond 402 (PaymentRequired (paymentObject cfg R))
      | Some h \<Rightarrow>
          (if h = [] then Respond 402 (PaymentRequired (paymentObject cfg R))
           else (case parseX402Header jsonParse now h of
                   None \<Rightarrow> Respond 400 InvalidPaymentHeader
                 | Some pay \<Rightarrow>
                     (case lt_number coerce (amount_h pay) R of
                        None \<Rightarrow> Respond 500 InternalServerError
                      | Some True \<Rightarrow> Respond 402 (InsufficientPayment (paymentObject cfg R))
                      | Some False \<Rightarrow>
                          (if recipient pay \<noteq> JString (RECIPIENT_WALLET cfg)
                           then Respond 400 InvalidRecipient
                           else (if verifyPayment cfg chain (signature pay) R (RECIPIENT_WALLET cfg)
                                 then Next else Respond 402 PaymentVerificationFailed))))))"
  using assms
  by (simp add: requirePayment_def checkRecipientAndChain_def split: option.splits bool.splits)

lemma requirePayment_next_iff:
  assumes "query_mock req \<noteq> Some ''true''"
  shows "requirePayment cfg chain jsonParse coerce now R req = Next \<longleftrightarrow>
     (\<exists>h pay. x402_payment req = Some h \<and> h \<noteq> [] \<and>
        parseX402Header jsonParse now h = Some pay \<and>
        lt_number coerce (amount_h pay) R = Some False \<and>
        recipient pay = JString (RECIPIENT_WALLET cfg) \<and>
        verifyPayment cfg chain (signature pay) R (RECIPIENT_WALLET cfg))"
  unfolding requirePayment_branches[OF assms]
  by (auto split: option.splits bool.splits)

text \<open>
  Claim C1: with the bypass off, the middleware calls \<open>next()\<close> if and only if the
  amount of the proof is at least the required amount, the recipient is the configured
  wallet and the verification on the ledger succeeds. The code at a header that names the
  recipient and a signature and no amount: \<open>amount >= 50000\<close> is false for the parsed
  proof, and the middleware calls \<open>next()\<close>.
\<close>

theorem missing_amount_authorized:
  "parseX402Header parse0 0 header_no_amount \<noteq> None \<and>
   amount_h (the (parseX402Header parse0 0 header_no_amount)) = Undefined \<and>
   ge_number coerce0 (amount_h (the (parseX402Header parse0 0 header_no_amount))) (Num 50000) = Some False \<and>
   requirePayment cfg0 chain0 parse0 coerce0 0 (Num 50000) request_no_amount = Next"
  using verify_unrelated header_nonempty
  by (simp add: parsed_no_amount ge_number_def js_ge_def requirePayment_def
      request_no_amount_def lt_number_def checkRecipientAndChain_def cfg0_def)

text \<open>
  Claim C9: when the header is valid JSON other than \<open>null\<close>, \<open>parseX402Header\<close>
  returns a record and the middleware never answers with the invalid-header response;
  when the amount of that record is absent (as it is when the object has neither an
  \<open>amount\<close> nor a \<open>value\<close> property), the middleware never answers with the
  insufficient-payment response and, with the bypass off, its outcome is that of the
  recipient check and what follows it.
\<close>

theorem valid_json_never_malformed:
  assumes "jsonParse h = Some v" and "v \<noteq> JNull" and "v \<noteq> Undefined"
    and "x402_payment req = Some h"
  shows "\<exists>pay. parseX402Header jsonParse now h = Some pay \<and>
     requirePayment cfg chain jsonParse coerce now R req \<noteq> Respond 400 InvalidPaymentHeader \<and>
     (amount_h pay = Undefined \<longrightarrow>
        (\<forall>st pr. requirePayment cfg chain jsonParse coerce now R req \<noteq> Respond st (InsufficientPayment pr)) \<and>
        (query_mock req \<noteq> Some ''true'' \<longrightarrow> h \<noteq> [] \<longrightarrow>
           requirePayment cfg chain jsonParse coerce now R req = checkRecipientAndChain cfg chain R pay)) \<and>
     (\<forall>kvs. v = JObject kvs \<longrightarrow> map_of kvs ''amount'' = None \<longrightarrow> map_of kvs ''value'' = None \<longrightarrow>
        amount_h pay = Undefined)"
proof -
  from parse_non_null[of jsonParse h v now, OF assms(1) assms(2) assms(3)] obtain pay where
    p: "parseX402Header jsonParse now h = Some pay"
    and a: "amount_h pay = firstPresent v [''amount'', ''value'']" by blast
  have nm: "requirePayment cfg chain jsonParse coerce now R req \<noteq> Respond 400 InvalidPaymentHeader"
    using p assms(4) checkRecipientAndChain_outcomes[of cfg chain R pay]
    by (auto simp: requirePayment_def split: option.splits)
  have und: "amount_h pay = Undefined \<Longrightarrow> query_mock req \<noteq> Some ''true'' \<Longrightarrow> h \<noteq> [] \<Longrightarrow>
      requirePayment cfg chain jsonParse coerce now R req = checkRecipientAndChain cfg chain R pay"
    using p assms(4) by (simp add: requirePayment_def lt_number_def)
  have ni: "amount_h pay = Undefined \<Longrightarrow>
      requirePayment cfg chain jsonParse coerce now R req \<noteq> Respond st (InsufficientPayment pr)" for st pr
    using p assms(4) checkRecipientAndChain_outcomes[of cfg chain R pay]
    by (auto simp: requirePayment_def lt_number_def split: option.splits)
  have ab: "v = JObject kvs \<Longrightarrow> map_of kvs ''amount'' = None \<Longrightarrow> map_of kvs ''value'' = None \<Longrightarrow>
      amount_h pay = Undefined" for kvs
    using a by (simp add: js_or_def)
  show ?thesis using p nm und ni ab by blast
qed


theorem valid_json_never_malformed_witness:
  "parse0 header_no_amount =
     Some (JObject [(''recipient'', JString merchant), (''signature'', JString ''sigUnrelated'')]) \<and>
   x402_payment request_no_amount = Some header_no_amount \<and>
   (\<exists>pay. parseX402Header parse0 0 header_no_amount = Some pay \<and>
      amount_h pay = Undefined \<and>
      requirePayment cfg0 chain0 parse0 coerce0 0 (Num 50000) request_no_amount \<noteq>
        Respond 400 InvalidPaymentHeader \<and>
      requirePayment cfg0 chain0 parse0 coerce0 0 (Num 50000) request_no_amount =
        checkRecipientAndChain cfg0 chain0 (Num 50000) pay)"
proof -
  have a: "parse0 header_no_amount =
     Some (JObject [(''recipient'', JString merchant), (''signature'', JString ''sigUnrelated'')])"
    by (simp add: parse0_def)
  have n1: "JObject [(''recipient'', JString merchant), (''signature'', JString ''sigUnrelated'')] \<noteq> JNull"
    by simp
  have n2: "JObject [(''recipient'', JString merchant), (''signature'', JString ''sigUnrelated'')] \<noteq> Undefined"
    by simp
  have b: "x402_payment request_no_amount = Some header_no_amount"
    by (simp add: request_no_amount_def)
  have q: "query_mock request_no_amount \<noteq> Some ''true''"
    by (simp add: request_no_amount_def)
  have m1: "map_of [(''recipient'', JString merchant), (''signature'', JString ''sigUnrelated'')] ''amount'' = None"
    by simp
  have m2: "map_of [(''recipient'', JString merchant), (''signature'', JString ''sigUnrelated'')] ''value'' = None"
    by simp
  from valid_json_never_malformed[of parse0 header_no_amount _ request_no_amount 0 cfg0 chain0 coerce0 "Num 50000",
         OF a n1 n2 b]
  obtain pay where p: "parseX402Header parse0 0 header_no_amount = Some pay"
    and r: "requirePayment cfg0 chain0 parse0 coerce0 0 (Num 50000) request_no_amount \<noteq>
        Respond 400 InvalidPaymentHeader"
    and u: "amount_h pay = Undefined \<longrightarrow>
        (\<forall>st pr. requirePayment cfg0 chain0 parse0 coerce0 0 (Num 50000) request_no_amount \<noteq>
           Respond st (InsufficientPayment pr)) \<and>
        (query_mock request_no_amount \<noteq> Some ''true'' \<longrightarrow> header_no_amount \<noteq> [] \<longrightarrow>
           requirePayment cfg0 chain0 parse0 coerce0 0 (Num 50000) request_no_amount =
             checkRecipientAndChain cfg0 chain0 (Num 50000) pay)"
    and k: "\<forall>kvs. JObject [(''recipient'', JString merchant), (''signature'', JString ''sigUnrelated'')] = JObject kvs \<longrightarrow>
        map_of kvs ''amount'' = None \<longrightarrow> map_of kvs ''value'' = None \<longrightarrow> amount_h pay = Undefined"
    by blast
  from k m1 m2 have und: "amount_h pay = Undefined" by blast
  with u q header_nonempty have
    "requirePayment cfg0 chain0 parse0 coerce0 0 (Num 50000) request_no_amount =
       checkRecipientAndChain cfg0 chain0 (Num 50000) pay" by blast
  with a b p r und show ?thesis by blast
qed

end
